theory Spec2Isabelle
  imports Complex_Main "HOL-Library.AList"
begin

section \<open>Python values, errors and results\<close>

text \<open>
  The adapter \<^verbatim>\<open>MongoStoreApi\<close> and the facade \<^verbatim>\<open>AzureCosmosDBMemoryStore\<close> of
  \<^verbatim>\<open>azure_cosmos_db_memory_store.py\<close> are embedded as functions on an explicit state.
  Every exception the code can raise is a value of \<open>error\<close>; a call that may raise
  returns \<open>error + 'a\<close> with \<open>Inl\<close> for the exception.  Floats are read as reals
  (no NaN), strings as lists of 8-bit code points.
\<close>

datatype error =
    TypeError
  | KeyError
  | IndexError
  | AttributeError
  | AssertionError
  | NotImplementedError
  | BulkWriteError

definition bindR :: "error + 'a \<Rightarrow> ('a \<Rightarrow> error + 'b) \<Rightarrow> error + 'b" where
  "bindR m f = (case m of Inl e \<Rightarrow> Inl e | Inr x \<Rightarrow> f x)"

text \<open>The values the adapter puts into a document, and a document as a Python dict
  (an association list: the first binding of a key is the one \<open>map_of\<close> reads).\<close>

datatype bson =
    BString string
  | BDouble real
  | BArray "real list"
  | BDate int
  | BDocument "(string \<times> bson) list"

type_synonym document = "(string \<times> bson) list"

text \<open>\<^verbatim>\<open>d[k]\<close> on a dict raises KeyError for a missing key; on \<^verbatim>\<open>None\<close> (what
  \<^verbatim>\<open>find_one\<close> returns when nothing matches) it raises TypeError.\<close>

definition getitem :: "document \<Rightarrow> string \<Rightarrow> error + bson" where
  "getitem d k = (case map_of d k of None \<Rightarrow> Inl KeyError | Some v \<Rightarrow> Inr v)"

definition getitem_opt :: "document option \<Rightarrow> string \<Rightarrow> error + bson" where
  "getitem_opt r k = (case r of None \<Rightarrow> Inl TypeError | Some d \<Rightarrow> getitem d k)"

text \<open>The record fields are typed, the dict values are not: reading a value of another
  shape than the adapter writes is reported as TypeError.  No document written by
  \<open>upsert_batch_core\<close> takes these branches.\<close>

definition as_str :: "bson \<Rightarrow> error + string" where
  "as_str v = (case v of BString s \<Rightarrow> Inr s | _ \<Rightarrow> Inl TypeError)"

definition np_array :: "bson \<Rightarrow> error + real list" where
  "np_array v = (case v of BArray xs \<Rightarrow> Inr xs | _ \<Rightarrow> Inl TypeError)"

definition as_datetime :: "bson \<Rightarrow> error + int" where
  "as_datetime v = (case v of BDate t \<Rightarrow> Inr t | _ \<Rightarrow> Inl TypeError)"

definition as_float :: "bson \<Rightarrow> error + real" where
  "as_float v = (case v of BDouble x \<Rightarrow> Inr x | _ \<Rightarrow> Inl TypeError)"

definition as_dict :: "bson \<Rightarrow> error + document" where
  "as_dict v = (case v of BDocument d \<Rightarrow> Inr d | _ \<Rightarrow> Inl TypeError)"

section \<open>The record model\<close>

text \<open>
  Modelled from the spec: the class \<^verbatim>\<open>MemoryRecord\<close> (module
  \<^verbatim>\<open>semantic_kernel.memory.memory_record\<close>) is imported by the adapter but is not part
  of the sources at hand.  Section 3 of the specification gives its fields: id, embedding,
  text, description, metadata and an optional timestamp; \<^verbatim>\<open>local_record\<close> builds a record
  from exactly these.  The timestamp is an instant, read as an integer
  count of microseconds; a time zone is not part of the model.
\<close>

record MemoryRecord =
  id' :: string
  embedding :: "real list"
  text' :: string
  description :: string
  additional_metadata :: string
  timestamp :: "int option"

definition local_record ::
  "string \<Rightarrow> real list \<Rightarrow> string \<Rightarrow> string \<Rightarrow> string \<Rightarrow> int option \<Rightarrow> MemoryRecord" where
  "local_record i e t d m ts =
     \<lparr>id' = i, embedding = e, text' = t, description = d,
      additional_metadata = m, timestamp = ts\<rparr>"

section \<open>\<^verbatim>\<open>json.dumps\<close> on the metadata dict\<close>

text \<open>
  \<^verbatim>\<open>json.dumps\<close> with its defaults (\<^verbatim>\<open>ensure_ascii=True\<close>, separators \<^verbatim>\<open>", "\<close> and
  \<^verbatim>\<open>": "\<close>): a string is quoted, backslash, double quote and the five named control
  characters get their two-character escapes, every other code point outside
  \<^verbatim>\<open>' '..'~'\<close> becomes a four-digit hexadecimal escape.
\<close>

definition hex_digit :: "nat \<Rightarrow> char" where
  "hex_digit n = ''0123456789abcdef'' ! (n mod 16)"

definition escape_char :: "char \<Rightarrow> string" where
  "escape_char c =
     (if c = CHR 0x5C then [CHR 0x5C, CHR 0x5C]
      else if c = CHR 0x22 then [CHR 0x5C, CHR 0x22]
      else if c = CHR 0x08 then [CHR 0x5C, CHR ''b'']
      else if c = CHR 0x0C then [CHR 0x5C, CHR ''f'']
      else if c = CHR 0x0A then [CHR 0x5C, CHR ''n'']
      else if c = CHR 0x0D then [CHR 0x5C, CHR ''r'']
      else if c = CHR 0x09 then [CHR 0x5C, CHR ''t'']
      else if (32::nat) \<le> of_char c \<and> (of_char c :: nat) \<le> 126 then [c]
      else [CHR 0x5C, CHR ''u'', CHR ''0'', CHR ''0'',
            hex_digit (of_char c div 16), hex_digit (of_char c mod 16)])"

definition json_string :: "string \<Rightarrow> string" where
  "json_string s = [CHR 0x22] @ concat (map escape_char s) @ [CHR 0x22]"

definition serialize_metadata :: "MemoryRecord \<Rightarrow> string" where
  \<open>serialize_metadata record =
     ''{"text": '' @ json_string (text' record) @
     '', "description": '' @ json_string (description record) @
     '', "additional_metadata": '' @ json_string (additional_metadata record) @ ''}''\<close>

section \<open>The database behind the wire client\<close>

text \<open>
  The adapter talks to one database (\<^verbatim>\<open>cosmos_database_name\<close>) of one
  \<^verbatim>\<open>MongoClient\<close>.  The client is modelled by the state of that database: its
  collections by name, in listing order, each with its documents in insertion order and
  its index metadata.  \<open>commands\<close> logs every \<^verbatim>\<open>command(...)\<close> call the adapter issues,
  and \<open>cosmosSearch\<close> is the server's vector search, a black box that ranks the
  documents of a collection for a query vector and a candidate count \<^verbatim>\<open>k\<close>.
\<close>

record index_def =
  idx_name :: string
  idx_key :: "string \<times> string"
  idx_kind :: string
  idx_numLists :: int
  idx_similarity :: string
  idx_dimensions :: int

record Collection =
  documents :: "document list"
  indexes :: "(string \<times> index_def) list"

record MongoClient =
  is_mongos :: bool
  database :: "(string \<times> Collection) list"
  commands :: "(string \<times> string \<times> index_def list) list"
  cosmosSearch :: "real list \<Rightarrow> int \<Rightarrow> document list \<Rightarrow> (document \<times> real) list"

text \<open>A collection handle is lazy: a name that the database does not list reads as an
  empty collection, and the first write creates it.\<close>

definition get_collection :: "MongoClient \<Rightarrow> string \<Rightarrow> Collection" where
  "get_collection c n =
     (case map_of (database c) n of
        None \<Rightarrow> \<lparr>documents = [], indexes = []\<rparr>
      | Some col \<Rightarrow> col)"

definition put_collection :: "MongoClient \<Rightarrow> string \<Rightarrow> Collection \<Rightarrow> MongoClient" where
  "put_collection c n col = c\<lparr>database := AList.update n col (database c)\<rparr>"

definition list_collection_names :: "MongoClient \<Rightarrow> string list" where
  "list_collection_names c = map fst (database c)"

definition index_information :: "MongoClient \<Rightarrow> string \<Rightarrow> (string \<times> index_def) list" where
  "index_information c n = indexes (get_collection c n)"

text \<open>\<^verbatim>\<open>command("createIndexes", n, indexes=defs)\<close>: the call is logged and every
  definition is added to the index metadata.  The model adds it even when the name is
  taken, so that a duplicate index is something the state can show.\<close>

definition command_createIndexes :: "MongoClient \<Rightarrow> string \<Rightarrow> index_def list \<Rightarrow> MongoClient" where
  "command_createIndexes c n defs =
     (let col = get_collection c n;
          c' = c\<lparr>commands := commands c @ [(''createIndexes'', n, defs)]\<rparr>
      in put_collection c' n
           (col\<lparr>indexes := indexes col @ map (\<lambda>d. (idx_name d, d)) defs\<rparr>))"

definition drop :: "MongoClient \<Rightarrow> string \<Rightarrow> MongoClient" where
  "drop c n = c\<lparr>database := AList.delete n (database c)\<rparr>"

text \<open>The two filters the adapter uses: \<^verbatim>\<open>{"_id": key}\<close> and
  \<^verbatim>\<open>{"_id": {"$in": keys}}\<close>; and the projection \<^verbatim>\<open>{"embedding": 0}\<close>, which drops
  the named fields from each document returned.\<close>

definition has_id :: "string \<Rightarrow> document \<Rightarrow> bool" where
  "has_id key d = (map_of d ''_id'' = Some (BString key))"

definition id_in :: "string list \<Rightarrow> document \<Rightarrow> bool" where
  "id_in keys d = (map_of d ''_id'' \<in> set (map (\<lambda>k. Some (BString k)) keys))"

definition project :: "string list \<Rightarrow> document \<Rightarrow> document" where
  "project excluded d = filter (\<lambda>kv. fst kv \<notin> set excluded) d"

definition find_one :: "MongoClient \<Rightarrow> string \<Rightarrow> string \<Rightarrow> string list \<Rightarrow> document option" where
  "find_one c n key excluded =
     map_option (project excluded) (find (has_id key) (documents (get_collection c n)))"

definition find_in :: "MongoClient \<Rightarrow> string \<Rightarrow> string list \<Rightarrow> string list \<Rightarrow> document list" where
  "find_in c n keys excluded =
     map (project excluded) (filter (id_in keys) (documents (get_collection c n)))"

text \<open>\<^verbatim>\<open>insert_many\<close> refuses an empty list (TypeError).  The insert is ordered: the
  documents go in one by one, and the first whose \<^verbatim>\<open>_id\<close> is already in the collection
  stops the batch with a BulkWriteError, the earlier ones staying inserted.\<close>

text \<open>The driver encodes a date in whole milliseconds, so a stored date reads back
  without its microseconds below the millisecond.  The adapter's documents are flat: the
  encoding goes over the fields of the document itself.\<close>

definition stored_value :: "bson \<Rightarrow> bson" where
  "stored_value v = (case v of BDate t \<Rightarrow> BDate (t div 1000 * 1000) | _ \<Rightarrow> v)"

definition stored :: "document \<Rightarrow> document" where
  "stored d = map (\<lambda>kv. (fst kv, stored_value (snd kv))) d"

fun insert_ordered :: "document list \<Rightarrow> document list \<Rightarrow> (error + unit) \<times> document list" where
  "insert_ordered col [] = (Inr (), col)"
| "insert_ordered col (d # ds) =
     (if map_of d ''_id'' \<in> set (map (\<lambda>e. map_of e ''_id'') col)
      then (Inl BulkWriteError, col)
      else insert_ordered (col @ [d]) ds)"

definition insert_many :: "MongoClient \<Rightarrow> string \<Rightarrow> document list \<Rightarrow> (error + unit) \<times> MongoClient" where
  "insert_many c n ds =
     (if ds = [] then (Inl TypeError, c)
      else let col = get_collection c n;
               (r, docs') = insert_ordered (documents col) (map stored ds)
           in (r, put_collection c n (col\<lparr>documents := docs'\<rparr>)))"

fun remove_first :: "('a \<Rightarrow> bool) \<Rightarrow> 'a list \<Rightarrow> 'a list" where
  "remove_first P [] = []"
| "remove_first P (x # xs) = (if P x then xs else x # remove_first P xs)"

definition delete_one :: "MongoClient \<Rightarrow> string \<Rightarrow> string \<Rightarrow> MongoClient" where
  "delete_one c n key =
     (case map_of (database c) n of
        None \<Rightarrow> c
      | Some col \<Rightarrow> put_collection c n (col\<lparr>documents := remove_first (has_id key) (documents col)\<rparr>))"

definition delete_many :: "MongoClient \<Rightarrow> string \<Rightarrow> string list \<Rightarrow> MongoClient" where
  "delete_many c n keys =
     (case map_of (database c) n of
        None \<Rightarrow> c
      | Some col \<Rightarrow>
          put_collection c n (col\<lparr>documents := filter (\<lambda>d. \<not> id_in keys d) (documents col)\<rparr>))"

text \<open>The aggregation pipeline of \<open>get_nearest_matches_core\<close>: the \<^verbatim>\<open>$search\<close> stage
  hands the query vector and \<^verbatim>\<open>k\<close> to the server's vector search; the \<^verbatim>\<open>$project\<close>
  stage turns each hit into a dict with the hit's \<^verbatim>\<open>_id\<close>, its score under
  \<^verbatim>\<open>similarityScore\<close> and the whole stored document under \<^verbatim>\<open>document\<close>.\<close>

definition agg_result :: "document \<times> real \<Rightarrow> document" where
  "agg_result hit =
     (case map_of (fst hit) ''_id'' of None \<Rightarrow> [] | Some i \<Rightarrow> [(''_id'', i)]) @
     [(''similarityScore'', BDouble (snd hit)), (''document'', BDocument (fst hit))]"

definition aggregate :: "MongoClient \<Rightarrow> string \<Rightarrow> real list \<Rightarrow> int \<Rightarrow> document list" where
  "aggregate c n vector k =
     map agg_result (cosmosSearch c vector k (documents (get_collection c n)))"

section \<open>The adapter \<^verbatim>\<open>MongoStoreApi\<close>\<close>

text \<open>The module-level settings read from the environment when the module is loaded.\<close>

record settings =
  cosmos_api :: string
  cosmos_connstr :: string
  cosmos_database_name :: string
  cosmos_container_name :: string

text \<open>\<^verbatim>\<open>self.collection\<close> is \<^verbatim>\<open>None\<close> until \<open>ensure\<close> binds the handle of the configured
  container; a method call on \<^verbatim>\<open>None\<close> raises AttributeError.\<close>

record MongoStoreApi =
  collection :: "string option"
  mongoClient :: MongoClient

definition MongoStoreApi_init :: "MongoClient \<Rightarrow> MongoStoreApi" where
  "MongoStoreApi_init client = \<lparr>collection = None, mongoClient = client\<rparr>"

definition indexDefs :: "int \<Rightarrow> string \<Rightarrow> int \<Rightarrow> index_def list" where
  "indexDefs num_lists similarity vector_dimensions =
     [\<lparr>idx_name = ''embedding_cosmosSearch'',
       idx_key = (''embedding'', ''cosmosSearch''),
       idx_kind = ''vector-ivf'',
       idx_numLists = num_lists,
       idx_similarity = similarity,
       idx_dimensions = vector_dimensions\<rparr>]"

definition ensure ::
  "settings \<Rightarrow> MongoStoreApi \<Rightarrow> int \<Rightarrow> string \<Rightarrow> int \<Rightarrow> (error + unit) \<times> MongoStoreApi" where
  "ensure env self num_lists similarity vector_dimensions =
     (if \<not> is_mongos (mongoClient self) then (Inl AssertionError, self)
      else
        let self' = self\<lparr>collection := Some (cosmos_container_name env)\<rparr>;
            existing = index_information (mongoClient self') (cosmos_container_name env)
        in if map_of existing ''embedding_cosmosSearch'' = None
           then (Inr (),
                 self'\<lparr>mongoClient :=
                   command_createIndexes (mongoClient self') (cosmos_container_name env)
                     (indexDefs num_lists similarity vector_dimensions)\<rparr>)
           else (Inr (), self'))"

definition create_collection_core :: "MongoStoreApi \<Rightarrow> string \<Rightarrow> (error + unit) \<times> MongoStoreApi" where
  "create_collection_core self collection_name = (Inr (), self)"

definition get_collections_core :: "MongoStoreApi \<Rightarrow> error + string list" where
  "get_collections_core self = Inr (list_collection_names (mongoClient self))"

definition delete_collection_core :: "MongoStoreApi \<Rightarrow> string \<Rightarrow> (error + unit) \<times> MongoStoreApi" where
  "delete_collection_core self collection_name =
     (case collection self of
        None \<Rightarrow> (Inl AttributeError, self)
      | Some coll \<Rightarrow> (Inr (), self\<lparr>mongoClient := drop (mongoClient self) coll\<rparr>))"

definition does_collection_exist_core :: "settings \<Rightarrow> MongoStoreApi \<Rightarrow> string \<Rightarrow> error + bool" where
  "does_collection_exist_core env self collection_name =
     Inr (cosmos_container_name env \<in> set (list_collection_names (mongoClient self)))"

definition cosmosRecord :: "MemoryRecord \<Rightarrow> document" where
  "cosmosRecord record =
     [(''_id'', BString (id' record)),
      (''embedding'', BArray (embedding record)),
      (''text'', BString (text' record)),
      (''description'', BString (description record)),
      (''metadata'', BString (serialize_metadata record))] @
     (case timestamp record of None \<Rightarrow> [] | Some t \<Rightarrow> [(''timestamp'', BDate t)])"

definition upsert_batch_core ::
  "MongoStoreApi \<Rightarrow> string \<Rightarrow> MemoryRecord list \<Rightarrow> (error + string list) \<times> MongoStoreApi" where
  "upsert_batch_core self collection_name records =
     (let doc_ids = map id' records;
          cosmosRecords = map cosmosRecord records
      in case collection self of
           None \<Rightarrow> (Inl AttributeError, self)
         | Some coll \<Rightarrow>
             (case insert_many (mongoClient self) coll cosmosRecords of
                (Inl e, client') \<Rightarrow> (Inl e, self\<lparr>mongoClient := client'\<rparr>)
              | (Inr u, client') \<Rightarrow> (Inr doc_ids, self\<lparr>mongoClient := client'\<rparr>)))"

definition upsert_core ::
  "MongoStoreApi \<Rightarrow> string \<Rightarrow> MemoryRecord \<Rightarrow> (error + string) \<times> MongoStoreApi" where
  "upsert_core self collection_name record =
     (case upsert_batch_core self collection_name [record] of
        (Inl e, self') \<Rightarrow> (Inl e, self')
      | (Inr result, self') \<Rightarrow>
          (case result of [] \<Rightarrow> (Inl IndexError, self') | i # _ \<Rightarrow> (Inr i, self')))"

text \<open>The \<^verbatim>\<open>MemoryRecord.local_record(...)\<close> call of \<open>get_core\<close> and
  \<open>get_batch_core\<close>: the keyword arguments are evaluated in the order written, so the
  first failing subscript decides the exception.\<close>

definition record_of_result :: "document option \<Rightarrow> bool \<Rightarrow> error + MemoryRecord" where
  "record_of_result result with_embedding =
     bindR (bindR (getitem_opt result ''_id'') as_str) (\<lambda>i.
     bindR (if with_embedding then bindR (getitem_opt result ''embedding'') np_array
            else Inr []) (\<lambda>e.
     bindR (bindR (getitem_opt result ''text'') as_str) (\<lambda>t.
     bindR (bindR (getitem_opt result ''description'') as_str) (\<lambda>d.
     bindR (bindR (getitem_opt result ''metadata'') as_str) (\<lambda>m.
     bindR (bindR (getitem_opt result ''timestamp'') as_datetime) (\<lambda>ts.
     Inr (local_record i e t d m (Some ts))))))))"

definition get_core :: "MongoStoreApi \<Rightarrow> string \<Rightarrow> string \<Rightarrow> bool \<Rightarrow> error + MemoryRecord" where
  "get_core self collection_name key with_embedding =
     (case collection self of
        None \<Rightarrow> Inl AttributeError
      | Some coll \<Rightarrow>
          (let result =
                 (if \<not> with_embedding
                  then find_one (mongoClient self) coll key [''embedding'']
                  else find_one (mongoClient self) coll key [])
           in record_of_result result with_embedding))"

fun collect :: "('a \<Rightarrow> error + 'b) \<Rightarrow> 'a list \<Rightarrow> error + 'b list" where
  "collect f [] = Inr []"
| "collect f (x # xs) = bindR (f x) (\<lambda>y. bindR (collect f xs) (\<lambda>ys. Inr (y # ys)))"

definition get_batch_core ::
  "MongoStoreApi \<Rightarrow> string \<Rightarrow> string list \<Rightarrow> bool \<Rightarrow> error + MemoryRecord list" where
  "get_batch_core self collection_name keys with_embeddings =
     (case collection self of
        None \<Rightarrow> Inl AttributeError
      | Some coll \<Rightarrow>
          (let results =
                 (if \<not> with_embeddings
                  then find_in (mongoClient self) coll keys [''embedding'']
                  else find_in (mongoClient self) coll keys [])
           in collect (\<lambda>result. record_of_result (Some result) with_embeddings) results))"

definition remove_core :: "MongoStoreApi \<Rightarrow> string \<Rightarrow> string \<Rightarrow> (error + unit) \<times> MongoStoreApi" where
  "remove_core self collection_name key =
     (case collection self of
        None \<Rightarrow> (Inl AttributeError, self)
      | Some coll \<Rightarrow> (Inr (), self\<lparr>mongoClient := delete_one (mongoClient self) coll key\<rparr>))"

definition remove_batch_core ::
  "MongoStoreApi \<Rightarrow> string \<Rightarrow> string list \<Rightarrow> (error + unit) \<times> MongoStoreApi" where
  "remove_batch_core self collection_name keys =
     (case collection self of
        None \<Rightarrow> (Inl AttributeError, self)
      | Some coll \<Rightarrow> (Inr (), self\<lparr>mongoClient := delete_many (mongoClient self) coll keys\<rparr>))"

text \<open>The loop of \<open>get_nearest_matches_core\<close>: the record is built from every
  aggregation result before its score is compared, and a result is skipped exactly when
  its score is less than \<^verbatim>\<open>min_relevance_score\<close>.\<close>

definition record_of_aggResult :: "document \<Rightarrow> bool \<Rightarrow> error + MemoryRecord" where
  "record_of_aggResult aggResult with_embeddings =
     bindR (bindR (getitem aggResult ''_id'') as_str) (\<lambda>i.
     bindR (if with_embeddings
            then bindR (bindR (bindR (getitem aggResult ''document'') as_dict)
                          (\<lambda>doc. getitem doc ''embedding'')) np_array
            else Inr []) (\<lambda>e.
     bindR (bindR (bindR (bindR (getitem aggResult ''document'') as_dict)
              (\<lambda>doc. getitem doc ''text'')) as_str) (\<lambda>t.
     bindR (bindR (bindR (bindR (getitem aggResult ''document'') as_dict)
              (\<lambda>doc. getitem doc ''description'')) as_str) (\<lambda>d.
     bindR (bindR (bindR (bindR (getitem aggResult ''document'') as_dict)
              (\<lambda>doc. getitem doc ''metadata'')) as_str) (\<lambda>m.
     bindR (bindR (bindR (bindR (getitem aggResult ''document'') as_dict)
              (\<lambda>doc. getitem doc ''timestamp'')) as_datetime) (\<lambda>ts.
     Inr (local_record i e t d m (Some ts))))))))"

fun nearest_loop ::
  "real \<Rightarrow> bool \<Rightarrow> document list \<Rightarrow> (MemoryRecord \<times> real) list
     \<Rightarrow> error + (MemoryRecord \<times> real) list" where
  "nearest_loop min_relevance_score with_embeddings [] nearest_results = Inr nearest_results"
| "nearest_loop min_relevance_score with_embeddings (aggResult # rest) nearest_results =
     bindR (record_of_aggResult aggResult with_embeddings) (\<lambda>result.
     bindR (bindR (getitem aggResult ''similarityScore'') as_float) (\<lambda>score.
       if score < min_relevance_score
       then nearest_loop min_relevance_score with_embeddings rest nearest_results
       else nearest_loop min_relevance_score with_embeddings rest
              (nearest_results @ [(result, score)])))"

definition get_nearest_matches_core ::
  "MongoStoreApi \<Rightarrow> string \<Rightarrow> real list \<Rightarrow> int \<Rightarrow> real \<Rightarrow> bool
     \<Rightarrow> error + (MemoryRecord \<times> real) list" where
  "get_nearest_matches_core self collection_name embedding' limit min_relevance_score
       with_embeddings =
     (case collection self of
        None \<Rightarrow> Inl AttributeError
      | Some coll \<Rightarrow>
          nearest_loop min_relevance_score with_embeddings
            (aggregate (mongoClient self) coll embedding' limit) [])"

definition get_nearest_match_core ::
  "MongoStoreApi \<Rightarrow> string \<Rightarrow> real list \<Rightarrow> real \<Rightarrow> bool
     \<Rightarrow> error + (MemoryRecord \<times> real) option" where
  "get_nearest_match_core self collection_name embedding' min_relevance_score with_embedding =
     bindR (get_nearest_matches_core self collection_name embedding' 1 min_relevance_score
              with_embedding)
       (\<lambda>nearest_results.
          if length nearest_results > 0 then Inr (Some (nearest_results ! 0)) else Inr None)"

section \<open>The port and the facade \<^verbatim>\<open>AzureCosmosDBMemoryStore\<close>\<close>

text \<open>
  The abstract class \<^verbatim>\<open>AzureCosmosDBStoreApi\<close> is the port: one constructor per abstract
  method, carrying the arguments of the call.  A facade method is one awaited call on
  \<^verbatim>\<open>self.cosmosStore\<close>; it is modelled by the call it makes, and \<open>forward\<close> runs such a
  call on the one adapter there is.
\<close>

datatype core_call =
    Get_collections_core
  | Delete_collection_core string
  | Does_collection_exist_core string
  | Upsert_core string MemoryRecord
  | Upsert_batch_core string "MemoryRecord list"
  | Get_core string string bool
  | Get_batch_core string "string list" bool
  | Remove_core string string
  | Remove_batch_core string "string list"
  | Get_nearest_matches_core string "real list" int real bool
  | Get_nearest_match_core string "real list" real bool

datatype core_value =
    VNone
  | VBool bool
  | VStr string
  | VStrs "string list"
  | VRecord MemoryRecord
  | VRecords "MemoryRecord list"
  | VMatches "(MemoryRecord \<times> real) list"
  | VMatch "(MemoryRecord \<times> real) option"

definition returning :: "('a \<Rightarrow> core_value) \<Rightarrow> (error + 'a) \<times> MongoStoreApi
    \<Rightarrow> (error + core_value) \<times> MongoStoreApi" where
  "returning v out = (map_sum (\<lambda>e. e) v (fst out), snd out)"

fun call_core :: "settings \<Rightarrow> MongoStoreApi \<Rightarrow> core_call \<Rightarrow> (error + core_value) \<times> MongoStoreApi" where
  "call_core env self Get_collections_core = returning VStrs (get_collections_core self, self)"
| "call_core env self (Delete_collection_core n) =
     returning (\<lambda>u. VNone) (delete_collection_core self n)"
| "call_core env self (Does_collection_exist_core n) =
     returning VBool (does_collection_exist_core env self n, self)"
| "call_core env self (Upsert_core n r) = returning VStr (upsert_core self n r)"
| "call_core env self (Upsert_batch_core n rs) = returning VStrs (upsert_batch_core self n rs)"
| "call_core env self (Get_core n k w) = returning VRecord (get_core self n k w, self)"
| "call_core env self (Get_batch_core n ks w) =
     returning VRecords (get_batch_core self n ks w, self)"
| "call_core env self (Remove_core n k) = returning (\<lambda>u. VNone) (remove_core self n k)"
| "call_core env self (Remove_batch_core n ks) =
     returning (\<lambda>u. VNone) (remove_batch_core self n ks)"
| "call_core env self (Get_nearest_matches_core n e l m w) =
     returning VMatches (get_nearest_matches_core self n e l m w, self)"
| "call_core env self (Get_nearest_match_core n e m w) =
     returning VMatch (get_nearest_match_core self n e m w, self)"

record AzureCosmosDBMemoryStore =
  cosmosStore :: MongoStoreApi

definition forward :: "settings \<Rightarrow> AzureCosmosDBMemoryStore \<Rightarrow> core_call
    \<Rightarrow> (error + core_value) \<times> AzureCosmosDBMemoryStore" where
  "forward env store c =
     (case call_core env (cosmosStore store) c of
        (r, api) \<Rightarrow> (r, store\<lparr>cosmosStore := api\<rparr>))"

text \<open>\<^verbatim>\<open>str()\<close> is the empty string.\<close>

definition str :: string where
  "str = []"

text \<open>The factory.  \<open>connect\<close> stands for \<^verbatim>\<open>MongoClient(cosmos_connstr)\<close>: the client
  that a connection string gives.\<close>

definition create ::
  "settings \<Rightarrow> (string \<Rightarrow> MongoClient) \<Rightarrow> int \<Rightarrow> string \<Rightarrow> int
     \<Rightarrow> error + AzureCosmosDBMemoryStore" where
  "create env connect num_lists similarity vector_dimensions =
     (if cosmos_api env = ''mongo-vcore''
      then (let client = connect (cosmos_connstr env);
                apiStore = MongoStoreApi_init client
            in case ensure env apiStore num_lists similarity vector_dimensions of
                 (Inl e, apiStore') \<Rightarrow> Inl e
               | (Inr u, apiStore') \<Rightarrow> Inr \<lparr>cosmosStore = apiStore'\<rparr>)
      else Inl NotImplementedError)"

definition get_collections_async :: core_call where
  "get_collections_async = Get_collections_core"

definition delete_collection_async :: "string \<Rightarrow> core_call" where
  "delete_collection_async collection_name = Delete_collection_core str"

definition does_collection_exist_async :: "string \<Rightarrow> core_call" where
  "does_collection_exist_async collection_name = Does_collection_exist_core str"

definition upsert_async :: "string \<Rightarrow> MemoryRecord \<Rightarrow> core_call" where
  "upsert_async collection_name record = Upsert_core str record"

definition upsert_batch_async :: "string \<Rightarrow> MemoryRecord list \<Rightarrow> core_call" where
  "upsert_batch_async collection_name records = Upsert_batch_core str records"

definition get_async :: "string \<Rightarrow> string \<Rightarrow> bool \<Rightarrow> core_call" where
  "get_async collection_name key with_embedding = Get_core str key with_embedding"

definition get_batch_async :: "string \<Rightarrow> string list \<Rightarrow> bool \<Rightarrow> core_call" where
  "get_batch_async collection_name keys with_embeddings = Get_batch_core str keys with_embeddings"

definition remove_async :: "string \<Rightarrow> string \<Rightarrow> core_call" where
  "remove_async collection_name key = Remove_core str key"

definition remove_batch_async :: "string \<Rightarrow> string list \<Rightarrow> core_call" where
  "remove_batch_async collection_name keys = Remove_batch_core str keys"

definition get_nearest_matches_async ::
  "string \<Rightarrow> real list \<Rightarrow> int \<Rightarrow> real \<Rightarrow> bool \<Rightarrow> core_call" where
  "get_nearest_matches_async collection_name embedding' limit min_relevance_score
       with_embeddings =
     Get_nearest_matches_core str embedding' limit min_relevance_score with_embeddings"

definition get_nearest_match_async :: "string \<Rightarrow> real list \<Rightarrow> real \<Rightarrow> bool \<Rightarrow> core_call" where
  "get_nearest_match_async collection_name embedding' min_relevance_score with_embedding =
     Get_nearest_match_core str embedding' min_relevance_score with_embedding"

section \<open>Example states\<close>

definition env0 :: settings where
  "env0 = \<lparr>cosmos_api = ''mongo-vcore'', cosmos_connstr = ''mongodb://localhost'',
           cosmos_database_name = ''sk_db'', cosmos_container_name = ''sk_container''\<rparr>"

definition dot :: "real list \<Rightarrow> real list \<Rightarrow> real" where
  "dot xs ys = sum_list (map (\<lambda>p. fst p * snd p) (zip xs ys))"

definition search0 :: "real list \<Rightarrow> int \<Rightarrow> document list \<Rightarrow> (document \<times> real) list" where
  "search0 vector k docs =
     take (nat k)
       (map (\<lambda>d. (d, case map_of d ''embedding'' of Some (BArray e) \<Rightarrow> dot vector e | _ \<Rightarrow> 0))
          docs)"

definition client0 :: MongoClient where
  "client0 = \<lparr>is_mongos = True, database = [], commands = [], cosmosSearch = search0\<rparr>"

definition store0 :: MongoStoreApi where
  "store0 = \<lparr>collection = Some ''sk_container'', mongoClient = client0\<rparr>"

definition record1 :: MemoryRecord where
  "record1 = \<lparr>id' = ''test_id1'', embedding = [0, 1, 0, 0, 0], text' = ''sample text1'',
              description = ''description'', additional_metadata = ''additional metadata'',
              timestamp = None\<rparr>"

definition record2 :: MemoryRecord where
  "record2 = \<lparr>id' = ''test_id2'', embedding = [0, 0, 1, 0, 0], text' = ''sample text2'',
              description = ''description'', additional_metadata = ''additional metadata'',
              timestamp = Some 1700000000\<rparr>"

definition fresh_store :: MongoStoreApi where
  "fresh_store = MongoStoreApi_init client0"

section \<open>The facade and the collection name\<close>

text \<open>
  C1 (as amended).  Each of the ten facade methods that take a collection name forwards
  to the port operation of the same name with the empty string \<^verbatim>\<open>str()\<close> in the place of
  the collection name, whatever name it received, and with its other arguments unchanged.
\<close>

theorem facade_forwards_empty_name:
  "delete_collection_async collection_name = Delete_collection_core []
   \<and> does_collection_exist_async collection_name = Does_collection_exist_core []
   \<and> upsert_async collection_name record = Upsert_core [] record
   \<and> upsert_batch_async collection_name records = Upsert_batch_core [] records
   \<and> get_async collection_name key with_embedding = Get_core [] key with_embedding
   \<and> get_batch_async collection_name keys with_embeddings = Get_batch_core [] keys with_embeddings
   \<and> remove_async collection_name key = Remove_core [] key
   \<and> remove_batch_async collection_name keys = Remove_batch_core [] keys
   \<and> get_nearest_matches_async collection_name e limit min_relevance_score with_embeddings
       = Get_nearest_matches_core [] e limit min_relevance_score with_embeddings
   \<and> get_nearest_match_async collection_name e min_relevance_score with_embedding
       = Get_nearest_match_core [] e min_relevance_score with_embedding"
  by (simp add: delete_collection_async_def does_collection_exist_async_def upsert_async_def
      upsert_batch_async_def get_async_def get_batch_async_def remove_async_def
      remove_batch_async_def get_nearest_matches_async_def get_nearest_match_async_def str_def)

text \<open>
  C1 as stated fails: called with the collection name \<^verbatim>\<open>sk_python_container\<close>,
  \<open>upsert_async\<close> does not pass that name on to \<open>upsert_core\<close>.
\<close>

theorem facade_forwards_name_counterexample:
  "upsert_async ''sk_python_container'' record1 \<noteq> Upsert_core ''sk_python_container'' record1"
  by (simp add: upsert_async_def str_def)

section \<open>The factory\<close>

text \<open>
  C8.  For every backend kind \<^verbatim>\<open>cosmos_api\<close> other than \<^verbatim>\<open>mongo-vcore\<close>, the factory
  \<open>create\<close> raises NotImplementedError (the unsupported-backend failure of the
  specification) and returns no store, whatever its other arguments are.
\<close>

theorem create_unsupported_backend:
  "cosmos_api env \<noteq> ''mongo-vcore'' \<Longrightarrow>
     create env connect num_lists similarity vector_dimensions = Inl NotImplementedError"
  by (simp add: create_def)

theorem create_unsupported_backend_witness:
  "cosmos_api (env0\<lparr>cosmos_api := ''no-sql''\<rparr>) \<noteq> ''mongo-vcore''
   \<and> create (env0\<lparr>cosmos_api := ''no-sql''\<rparr>) (\<lambda>s. client0) 1 ''COS'' 5 = Inl NotImplementedError"
  using create_unsupported_backend [of "env0\<lparr>cosmos_api := ''no-sql''\<rparr>" "\<lambda>s. client0" 1 "''COS''" 5]
  by (simp add: env0_def)

section \<open>Whether the collection exists\<close>

text \<open>
  C10.  The result of \<open>does_collection_exist_core\<close> does not depend on its collection
  name argument: on the same state any two names give the same answer, which is whether
  the configured container name is in the database's list of collections.
\<close>

theorem does_collection_exist_ignores_name:
  "does_collection_exist_core env self name1 = does_collection_exist_core env self name2
   \<and> does_collection_exist_core env self name1
       = Inr (cosmos_container_name env \<in> set (list_collection_names (mongoClient self)))"
  by (simp add: does_collection_exist_core_def)

section \<open>The write path and the lookup that follows it\<close>

text \<open>
  Facts about the database model and about \<open>upsert_core\<close>: a successful upsert
  found no document with the record's id and appended the record's document to the bound
  collection, and a lookup of that id afterwards finds exactly this document.
\<close>

lemma bindR_return: "bindR (Inr x) f = f x"
  by (simp add: bindR_def)

lemma bindR_Inr: "bindR m f = Inr y \<Longrightarrow> \<exists>x. m = Inr x \<and> f x = Inr y"
  by (cases m) (simp_all add: bindR_def)

lemma get_put_collection: "get_collection (put_collection c n col) n = col"
  by (simp add: get_collection_def put_collection_def update_conv')

lemma get_collection_commands:
  "get_collection (c\<lparr>commands := entries\<rparr>) n = get_collection c n"
  by (simp add: get_collection_def)

lemma find_append_fresh: "find P xs = None \<Longrightarrow> find P (xs @ ys) = find P ys"
  by (induction xs) (auto split: if_splits)

lemma has_id_cosmosRecord: "has_id key (stored (cosmosRecord r)) \<longleftrightarrow> key = id' r"
  by (auto simp: has_id_def cosmosRecord_def stored_def stored_value_def)

lemma fresh_id_find:
  "map_of d ''_id'' \<notin> set (map (\<lambda>e. map_of e ''_id'') col) \<Longrightarrow> has_id key d \<Longrightarrow>
     find (has_id key) col = None"
  by (auto simp: find_None_iff has_id_def image_iff)

lemma upsert_core_success:
  assumes "upsert_core self collection_name r = (Inr i, self')"
  shows "\<exists>coll. collection self = Some coll \<and> collection self' = Some coll \<and> i = id' r
           \<and> find (has_id (id' r)) (documents (get_collection (mongoClient self) coll)) = None
           \<and> documents (get_collection (mongoClient self') coll)
               = documents (get_collection (mongoClient self) coll) @ [stored (cosmosRecord r)]"
proof -
  from assms obtain coll where coll: "collection self = Some coll"
    by (cases "collection self") (auto simp: upsert_core_def upsert_batch_core_def)
  let ?col = "get_collection (mongoClient self) coll"
  from assms coll have fresh:
    "map_of (stored (cosmosRecord r)) ''_id''
       \<notin> set (map (\<lambda>e. map_of e ''_id'') (documents ?col))"
    by (auto simp: upsert_core_def upsert_batch_core_def insert_many_def Let_def
        split: if_splits prod.splits sum.splits)
  from assms coll fresh have self': "self' = self\<lparr>mongoClient :=
      put_collection (mongoClient self) coll
        (?col\<lparr>documents := documents ?col @ [stored (cosmosRecord r)]\<rparr>)\<rparr>"
    and i: "i = id' r"
    by (auto simp: upsert_core_def upsert_batch_core_def insert_many_def Let_def)
  have "find (has_id (id' r)) (documents ?col) = None"
    using fresh by (rule fresh_id_find) (simp add: has_id_cosmosRecord)
  with coll self' i show ?thesis
    by (simp add: get_put_collection)
qed

lemma find_one_after_upsert:
  assumes "upsert_core self collection_name r = (Inr i, self')"
  shows "\<exists>coll. collection self' = Some coll
           \<and> (\<forall>excluded. find_one (mongoClient self') coll (id' r) excluded
               = Some (project excluded (stored (cosmosRecord r))))"
proof -
  from upsert_core_success [OF assms] obtain coll where
    c: "collection self' = Some coll"
    and f: "find (has_id (id' r)) (documents (get_collection (mongoClient self) coll)) = None"
    and d: "documents (get_collection (mongoClient self') coll)
               = documents (get_collection (mongoClient self) coll) @ [stored (cosmosRecord r)]"
    by blast
  have "find (has_id (id' r)) (documents (get_collection (mongoClient self') coll))
          = Some (stored (cosmosRecord r))"
    by (simp add: d find_append_fresh [OF f] has_id_cosmosRecord)
  with c show ?thesis by (simp add: find_one_def)
qed

lemma upsert_core_fresh:
  assumes "collection self = Some coll"
    and "find (has_id (id' r)) (documents (get_collection (mongoClient self) coll)) = None"
  shows "fst (upsert_core self collection_name r) = Inr (id' r)"
proof -
  let ?col = "get_collection (mongoClient self) coll"
  have "map_of (stored (cosmosRecord r)) ''_id''
          \<notin> set (map (\<lambda>e. map_of e ''_id'') (documents ?col))"
    using assms(2)
    by (auto simp: find_None_iff has_id_def cosmosRecord_def stored_def stored_value_def)
  with assms(1) show ?thesis
    by (simp add: upsert_core_def upsert_batch_core_def insert_many_def Let_def)
qed


lemma record_of_result_with_timestamp:
  "timestamp r = Some t \<Longrightarrow>
     record_of_result (Some (project [] (stored (cosmosRecord r)))) True
       = Inr (r\<lparr>additional_metadata := serialize_metadata r,
                timestamp := Some (t div 1000 * 1000)\<rparr>)"
  by (simp add: record_of_result_def cosmosRecord_def stored_def stored_value_def project_def
      getitem_opt_def getitem_def bindR_def as_str_def np_array_def as_datetime_def
      local_record_def)

lemma upsert_record1:
  "upsert_core store0 [] record1 =
     (Inr ''test_id1'',
      store0\<lparr>mongoClient := client0\<lparr>database :=
        [(''sk_container'', \<lparr>documents = [cosmosRecord record1], indexes = []\<rparr>)]\<rparr>\<rparr>)"
  by (simp add: upsert_core_def upsert_batch_core_def insert_many_def store0_def client0_def
      record1_def cosmosRecord_def stored_def stored_value_def get_collection_def
      put_collection_def Let_def)

lemma upsert_record2:
  "upsert_core store0 [] record2 =
     (Inr ''test_id2'',
      store0\<lparr>mongoClient := client0\<lparr>database :=
        [(''sk_container'', \<lparr>documents = [cosmosRecord record2], indexes = []\<rparr>)]\<rparr>\<rparr>)"
  by (simp add: upsert_core_def upsert_batch_core_def insert_many_def store0_def client0_def
      record2_def cosmosRecord_def stored_def stored_value_def get_collection_def
      put_collection_def Let_def)

section \<open>Reading back a record that has no timestamp\<close>



section \<open>The round trip of a record\<close>

text \<open>
  The serialized metadata is always longer than the record's own metadata string, so the
  two never coincide.
\<close>

lemma escape_char_nonempty: "escape_char c \<noteq> []"
  by (simp add: escape_char_def)

lemma length_concat_escape: "length s \<le> length (concat (map escape_char s))"
proof (induction s)
  case Nil
  then show ?case by simp
next
  case (Cons c s)
  have "1 \<le> length (escape_char c)"
    using escape_char_nonempty [of c] by (cases "escape_char c") simp_all
  with Cons show ?case by simp
qed

lemma serialize_metadata_longer:
  "length (additional_metadata r) < length (serialize_metadata r)"
  using length_concat_escape [of "additional_metadata r"]
  by (simp add: serialize_metadata_def json_string_def)

lemma serialize_metadata_differs: "serialize_metadata r \<noteq> additional_metadata r"
  using serialize_metadata_longer [of r] by auto

text \<open>
  C2 (as amended).  For every record with a non-empty embedding that carries a timestamp
  and whose id no document of the bound collection has yet, \<open>upsert_core\<close> returns the
  record's id, and \<open>get_core\<close> of that id with the embedding then returns a record
  equal to the one written in id, text, description and embedding, whose metadata is the
  serialized JSON object of text, description and metadata that the write stored: the
  read does not unpack it.
\<close>

theorem upsert_then_get_roundtrip:
  assumes "collection self = Some coll"
    and "find (has_id (id' r)) (documents (get_collection (mongoClient self) coll)) = None"
    and "timestamp r \<noteq> None"
    and "embedding r \<noteq> []"
  shows "fst (upsert_core self collection_name r) = Inr (id' r)
         \<and> (\<exists>rec. get_core (snd (upsert_core self collection_name r)) collection_name
                      (id' r) True = Inr rec
                \<and> id' rec = id' r
                \<and> text' rec = text' r
                \<and> description rec = description r
                \<and> embedding rec = embedding r
                \<and> additional_metadata rec = serialize_metadata r)"
proof -
  have ok: "upsert_core self collection_name r
              = (Inr (id' r), snd (upsert_core self collection_name r))"
    using upsert_core_fresh [OF assms(1,2), of collection_name]
    by (simp add: prod_eq_iff)
  from find_one_after_upsert [OF ok] obtain c where
    c: "collection (snd (upsert_core self collection_name r)) = Some c"
    and f: "find_one (mongoClient (snd (upsert_core self collection_name r))) c (id' r) []
              = Some (project [] (stored (cosmosRecord r)))"
    by blast
  from assms(3) obtain t where t: "timestamp r = Some t" by auto
  have "get_core (snd (upsert_core self collection_name r)) collection_name (id' r) True
          = Inr (r\<lparr>additional_metadata := serialize_metadata r,
                   timestamp := Some (t div 1000 * 1000)\<rparr>)"
    by (simp add: get_core_def c f record_of_result_with_timestamp [OF t])
  with upsert_core_fresh [OF assms(1,2), of collection_name] show ?thesis by simp
qed

theorem upsert_then_get_roundtrip_witness:
  "collection store0 = Some ''sk_container''
   \<and> find (has_id (id' record2)) (documents (get_collection (mongoClient store0) ''sk_container'')) = None
   \<and> timestamp record2 \<noteq> None
   \<and> embedding record2 \<noteq> []
   \<and> fst (upsert_core store0 [] record2) = Inr (id' record2)
   \<and> (\<exists>rec. get_core (snd (upsert_core store0 [] record2)) [] (id' record2) True = Inr rec
          \<and> id' rec = id' record2
          \<and> text' rec = text' record2
          \<and> description rec = description record2
          \<and> embedding rec = embedding record2
          \<and> additional_metadata rec = serialize_metadata record2)"
proof -
  have a: "collection store0 = Some ''sk_container''"
    by (simp add: store0_def)
  have b: "find (has_id (id' record2))
             (documents (get_collection (mongoClient store0) ''sk_container'')) = None"
    by (simp add: store0_def client0_def get_collection_def)
  have c: "timestamp record2 \<noteq> None"
    by (simp add: record2_def)
  have d: "embedding record2 \<noteq> []"
    by (simp add: record2_def)
  from upsert_then_get_roundtrip [OF a b c d, of "[]"] a b c d show ?thesis
    by simp
qed

text \<open>
  C2 as stated fails: the record \<^verbatim>\<open>test_id2\<close>, which has a timestamp and a non-empty
  embedding, is written to an empty collection and read back; the metadata returned is
  the serialized JSON object, not the metadata \<^verbatim>\<open>additional metadata\<close> of the record.
\<close>

theorem upsert_then_get_metadata_counterexample:
  \<open>embedding record2 \<noteq> []
   \<and> fst (upsert_core store0 [] record2) = Inr (id' record2)
   \<and> get_core (snd (upsert_core store0 [] record2)) [] (id' record2) True
       = Inr (record2\<lparr>additional_metadata :=
           ''{"text": "sample text2", "description": "description", "additional_metadata": "additional metadata"}''\<rparr>)
   \<and> additional_metadata record2 \<noteq>
       ''{"text": "sample text2", "description": "description", "additional_metadata": "additional metadata"}''\<close>
  unfolding upsert_record2
  by (simp add: get_core_def store0_def client0_def find_one_def
      get_collection_def project_def has_id_def cosmosRecord_def record_of_result_def
      getitem_opt_def getitem_def bindR_def as_str_def np_array_def as_datetime_def
      local_record_def serialize_metadata_def json_string_def escape_char_def record2_def)

section \<open>A key that no document has\<close>

text \<open>
  When the bound collection holds no document with the key, \<^verbatim>\<open>find_one\<close> returns
  \<^verbatim>\<open>None\<close> and the first subscript of \<open>get_core\<close> raises TypeError.
\<close>

lemma get_core_absent_id:
  assumes "collection self = Some coll"
    and "find (has_id key) (documents (get_collection (mongoClient self) coll)) = None"
  shows "get_core self collection_name key with_embedding = Inl TypeError"
  using assms
  by (simp add: get_core_def find_one_def record_of_result_def getitem_opt_def bindR_def)

text \<open>
  C3.  The specification asks \<^verbatim>\<open>getOne\<close> to fail with NotFound, and with no other
  kind of failure, for an id that no document has.  The code raises no such error: on a
  collection that holds only \<^verbatim>\<open>test_id2\<close>, \<open>get_core\<close> of \<^verbatim>\<open>test_id1\<close> raises the
  TypeError of subscripting \<^verbatim>\<open>None\<close>, with and without the embedding.
\<close>

theorem get_core_absent_id_raises_TypeError:
  "get_core (snd (upsert_core store0 [] record2)) [] ''test_id1'' True = Inl TypeError
   \<and> get_core (snd (upsert_core store0 [] record2)) [] ''test_id1'' False = Inl TypeError"
  unfolding upsert_record2
  by (simp add: get_core_def store0_def client0_def find_one_def
      get_collection_def has_id_def cosmosRecord_def record_of_result_def
      getitem_opt_def bindR_def record2_def)

section \<open>Reading without the embedding\<close>

text \<open>
  Whenever \<open>get_core\<close> or \<open>get_batch_core\<close> returns without the embedding, every
  record returned has the empty embedding.
\<close>

lemma record_of_result_without_embedding:
  assumes "record_of_result result False = Inr rec"
  shows "embedding rec = []"
  using assms unfolding record_of_result_def
  by (auto dest!: bindR_Inr simp: local_record_def)

lemma get_core_without_embedding:
  "get_core self collection_name key False = Inr rec \<Longrightarrow> embedding rec = []"
  by (auto simp: get_core_def split: option.splits dest: record_of_result_without_embedding)

lemma collect_all:
  "collect f xs = Inr ys \<Longrightarrow> (\<And>x y. f x = Inr y \<Longrightarrow> P y) \<Longrightarrow> \<forall>y\<in>set ys. P y"
proof (induction xs arbitrary: ys)
  case Nil
  then show ?case by simp
next
  case (Cons x xs)
  from Cons.prems(1) obtain y where y: "f x = Inr y"
    and rest: "bindR (collect f xs) (\<lambda>ys'. Inr (y # ys')) = Inr ys"
    by (cases "f x") (simp_all add: bindR_def)
  from rest obtain ys' where ys': "collect f xs = Inr ys'" and ys: "ys = y # ys'"
    by (cases "collect f xs") (auto simp add: bindR_def)
  from Cons.IH [OF ys' Cons.prems(2)] Cons.prems(2) [OF y] ys show ?case
    by simp
qed

lemma get_batch_core_without_embedding:
  assumes "get_batch_core self collection_name keys False = Inr recs"
  shows "\<forall>rec\<in>set recs. embedding rec = []"
proof -
  from assms obtain results where
    "collect (\<lambda>result. record_of_result (Some result) False) results = Inr recs"
    by (auto simp: get_batch_core_def split: option.splits)
  then show ?thesis
    by (rule collect_all) (rule record_of_result_without_embedding)
qed

text \<open>
  C7.  The specification asks that \<^verbatim>\<open>getOne\<close> and \<^verbatim>\<open>getMany\<close> without the embedding
  return, for every stored record, a record whose embedding is empty.  For the stored
  record \<^verbatim>\<open>test_id1\<close>, which was upserted without a timestamp, neither returns a record:
  both raise KeyError on the missing \<^verbatim>\<open>timestamp\<close> field.
\<close>

theorem get_without_embedding_raises_KeyError:
  "get_core (snd (upsert_core store0 [] record1)) [] ''test_id1'' False = Inl KeyError
   \<and> get_batch_core (snd (upsert_core store0 [] record1)) [] [''test_id1''] False = Inl KeyError"
  unfolding upsert_record1
  by (simp add: get_core_def get_batch_core_def store0_def client0_def
      find_one_def find_in_def id_in_def
      get_collection_def project_def has_id_def cosmosRecord_def record_of_result_def
      getitem_opt_def getitem_def bindR_def as_str_def record1_def)

section \<open>The nearest matches\<close>

text \<open>
  On search hits whose documents were written from records with a timestamp, the loop of
  \<open>get_nearest_matches_core\<close> returns, in the order of the hits, exactly those whose
  score is not less than the minimum relevance score.
\<close>

lemma record_of_aggResult_stored:
  assumes "timestamp r = Some t"
  shows "record_of_aggResult (agg_result (stored (cosmosRecord r), s)) w
           = Inr (r\<lparr>embedding := (if w then embedding r else []),
                    additional_metadata := serialize_metadata r,
                    timestamp := Some (t div 1000 * 1000)\<rparr>)"
  using assms
  by (simp add: record_of_aggResult_def agg_result_def cosmosRecord_def stored_def
      stored_value_def getitem_def bindR_def as_str_def as_dict_def np_array_def
      as_datetime_def local_record_def)

lemma score_of_agg_result:
  "bindR (getitem (agg_result hit) ''similarityScore'') as_float = Inr (snd hit)"
  by (simp add: agg_result_def getitem_def bindR_def as_float_def split: option.splits)

lemma nearest_loop_stored:
  assumes "\<forall>h\<in>set hits. timestamp (fst h) \<noteq> None"
  shows "nearest_loop m w (map (\<lambda>h. agg_result (stored (cosmosRecord (fst h)), snd h)) hits) acc
           = Inr (acc @ map (\<lambda>h. (fst h\<lparr>embedding := (if w then embedding (fst h) else []),
                                        additional_metadata := serialize_metadata (fst h),
                                        timestamp :=
                                          map_option (\<lambda>t. t div 1000 * 1000)
                                            (timestamp (fst h))\<rparr>,
                                    snd h))
                          (filter (\<lambda>h. \<not> snd h < m) hits))"
  using assms
proof (induction hits arbitrary: acc)
  case Nil
  then show ?case by simp
next
  case (Cons h hits)
  from Cons.prems obtain t where t: "timestamp (fst h) = Some t" by auto
  from Cons.prems have rest: "\<forall>h\<in>set hits. timestamp (fst h) \<noteq> None" by simp
  show ?case
    using Cons.IH [OF rest]
    by (simp add: record_of_aggResult_stored [OF t] score_of_agg_result bindR_return t)
qed

text \<open>
  C4.  The specification asks \<^verbatim>\<open>nearestMatches\<close> to return, for every query, limit and
  minimum relevance score, the hits that clear the score.  With the record \<^verbatim>\<open>test_id1\<close>
  stored without a timestamp, the search for its own embedding with limit 3 and minimum
  score 0 returns nothing: building the record of the hit raises KeyError on the missing
  \<^verbatim>\<open>timestamp\<close> field, before any score is compared.
\<close>

theorem nearest_matches_raises_KeyError:
  "get_nearest_matches_core (snd (upsert_core store0 [] record1)) [] [0, 1, 0, 0, 0] 3 0 True
     = Inl KeyError"
  unfolding upsert_record1
  by (simp add: get_nearest_matches_core_def store0_def client0_def
      aggregate_def search0_def agg_result_def dot_def
      get_collection_def cosmosRecord_def record_of_aggResult_def
      getitem_def bindR_def as_str_def as_dict_def np_array_def record1_def)

section \<open>The nearest match\<close>

text \<open>
  Whenever the search with limit 1 returns, \<open>get_nearest_match_core\<close> returns its first
  element, and the absent value when it is empty.
\<close>

lemma nearest_match_of_matches:
  assumes "get_nearest_matches_core self collection_name e 1 min_relevance_score with_embedding
             = Inr nearest_results"
  shows "get_nearest_match_core self collection_name e min_relevance_score with_embedding
           = Inr (case nearest_results of [] \<Rightarrow> None | first # others \<Rightarrow> Some first)"
  using assms
  by (simp add: get_nearest_match_core_def bindR_return split: list.splits)

text \<open>
  C5.  The specification asks \<^verbatim>\<open>nearestMatch\<close> to return the first of the nearest matches
  with limit 1, and the absent value, not an error, when no match clears the threshold.
  With the record \<^verbatim>\<open>test_id1\<close> stored without a timestamp, the search for its own
  embedding has one hit, of score 1; with the minimum score 3/2 no match clears the
  threshold, yet \<open>get_nearest_match_core\<close> does not return the absent value: it raises
  KeyError on the missing \<^verbatim>\<open>timestamp\<close> field of the hit.
\<close>

theorem nearest_match_raises_KeyError:
  "map snd (search0 [0, 1, 0, 0, 0] 1 [cosmosRecord record1]) = [1]
   \<and> get_nearest_match_core (snd (upsert_core store0 [] record1)) [] [0, 1, 0, 0, 0] (3 / 2) True
       = Inl KeyError"
  unfolding upsert_record1
  by (simp add: get_nearest_match_core_def get_nearest_matches_core_def store0_def client0_def
      aggregate_def search0_def agg_result_def dot_def
      get_collection_def cosmosRecord_def record_of_aggResult_def
      getitem_def bindR_def as_str_def as_dict_def np_array_def record1_def)

section \<open>Index provisioning\<close>

text \<open>
  \<open>ensure\<close> reads the index metadata of the configured container first and issues
  \<^verbatim>\<open>createIndexes\<close> only when no index is named \<^verbatim>\<open>embedding_cosmosSearch\<close>.
\<close>

lemma createIndexes_index_information:
  "index_information (command_createIndexes c n defs) n
     = index_information c n @ map (\<lambda>d. (idx_name d, d)) defs"
  by (simp add: command_createIndexes_def index_information_def Let_def get_put_collection
      get_collection_commands)

lemma createIndexes_is_mongos: "is_mongos (command_createIndexes c n defs) = is_mongos c"
  by (simp add: command_createIndexes_def put_collection_def Let_def)

lemma createIndexes_commands:
  "commands (command_createIndexes c n defs) = commands c @ [(''createIndexes'', n, defs)]"
  by (simp add: command_createIndexes_def put_collection_def Let_def)

lemma no_binding_no_entry:
  "map_of xs k = None \<longleftrightarrow> filter (\<lambda>ix. fst ix = k) xs = []"
  by (induction xs) auto

lemma ensure_when_index_present:
  assumes "is_mongos (mongoClient self)"
    and "map_of (index_information (mongoClient self) (cosmos_container_name env))
           ''embedding_cosmosSearch'' \<noteq> None"
  shows "ensure env self num_lists similarity vector_dimensions
           = (Inr (), self\<lparr>collection := Some (cosmos_container_name env)\<rparr>)"
  using assms by (auto simp add: ensure_def Let_def)

lemma ensure_when_index_absent:
  assumes "is_mongos (mongoClient self)"
    and "map_of (index_information (mongoClient self) (cosmos_container_name env))
           ''embedding_cosmosSearch'' = None"
  shows "ensure env self num_lists similarity vector_dimensions
           = (Inr (), self\<lparr>collection := Some (cosmos_container_name env),
                 mongoClient := command_createIndexes (mongoClient self)
                   (cosmos_container_name env)
                   (indexDefs num_lists similarity vector_dimensions)\<rparr>)"
  using assms by (simp add: ensure_def Let_def)

lemma ensure_fresh_store:
  "ensure env0 fresh_store 1 ''COS'' 5 =
     (Inr (),
      \<lparr>collection = Some ''sk_container'',
       mongoClient = client0\<lparr>
         database := [(''sk_container'',
            \<lparr>documents = [], indexes = [(''embedding_cosmosSearch'',
               \<lparr>idx_name = ''embedding_cosmosSearch'',
                idx_key = (''embedding'', ''cosmosSearch''), idx_kind = ''vector-ivf'',
                idx_numLists = 1, idx_similarity = ''COS'', idx_dimensions = 5\<rparr>)]\<rparr>)],
         commands := [(''createIndexes'', ''sk_container'', indexDefs 1 ''COS'' 5)]\<rparr>\<rparr>)"
  by (simp add: ensure_def fresh_store_def MongoStoreApi_init_def env0_def client0_def
      index_information_def get_collection_def command_createIndexes_def put_collection_def
      indexDefs_def Let_def)

text \<open>
  C6.  \<open>ensure\<close> is idempotent.  After a call that succeeded, a second call with the
  same parameters succeeds too and leaves the whole state as it is: it issues no command
  and adds no index.  The first call issued at most one command, and the number of
  indexes named \<^verbatim>\<open>embedding_cosmosSearch\<close> after it is one when there was none before
  and unchanged otherwise.
\<close>

theorem ensure_idempotent:
  assumes "ensure env self num_lists similarity vector_dimensions = (Inr (), self')"
  shows "ensure env self' num_lists similarity vector_dimensions = (Inr (), self')
         \<and> length (commands (mongoClient self')) \<le> length (commands (mongoClient self)) + 1
         \<and> length (filter (\<lambda>ix. fst ix = ''embedding_cosmosSearch'')
                     (index_information (mongoClient self') (cosmos_container_name env)))
             = max 1 (length (filter (\<lambda>ix. fst ix = ''embedding_cosmosSearch'')
                     (index_information (mongoClient self) (cosmos_container_name env))))"
proof -
  let ?n = "cosmos_container_name env"
  let ?name = "''embedding_cosmosSearch''"
  let ?existing = "index_information (mongoClient self) ?n"
  from assms have m: "is_mongos (mongoClient self)"
    by (auto simp: ensure_def split: if_splits)
  show ?thesis
  proof (cases "map_of ?existing ?name = None")
    case True
    let ?client = "command_createIndexes (mongoClient self) ?n
                     (indexDefs num_lists similarity vector_dimensions)"
    from assms ensure_when_index_absent [OF m True, of num_lists similarity vector_dimensions]
    have s: "self' = self\<lparr>collection := Some ?n, mongoClient := ?client\<rparr>"
      by simp
    have present: "map_of (index_information (mongoClient self') ?n) ?name \<noteq> None"
      by (simp add: s createIndexes_index_information indexDefs_def True)
    have m': "is_mongos (mongoClient self')"
      by (simp add: s createIndexes_is_mongos m)
    have again: "ensure env self' num_lists similarity vector_dimensions = (Inr (), self')"
      using ensure_when_index_present [OF m' present, of num_lists similarity vector_dimensions]
      by (simp add: s)
    have none: "filter (\<lambda>ix. fst ix = ?name) ?existing = []"
      using True by (simp add: no_binding_no_entry)
    have count: "length (filter (\<lambda>ix. fst ix = ?name) (index_information (mongoClient self') ?n))
                   = 1"
      by (simp add: s createIndexes_index_information indexDefs_def none)
    from again count none show ?thesis
      by (simp add: s createIndexes_commands)
  next
    case False
    from assms ensure_when_index_present [OF m False, of num_lists similarity vector_dimensions]
    have s: "self' = self\<lparr>collection := Some ?n\<rparr>"
      by simp
    have again: "ensure env self' num_lists similarity vector_dimensions = (Inr (), self')"
      using ensure_when_index_present [of self' env num_lists similarity vector_dimensions]
        m False
      by (simp add: s)
    from False have "filter (\<lambda>ix. fst ix = ?name) ?existing \<noteq> []"
      by (simp add: no_binding_no_entry)
    then have "1 \<le> length (filter (\<lambda>ix. fst ix = ?name) ?existing)"
      by (cases "filter (\<lambda>ix. fst ix = ?name) ?existing") simp_all
    with again show ?thesis
      by (simp add: s max_def)
  qed
qed

theorem ensure_idempotent_witness:
  "ensure env0 fresh_store 1 ''COS'' 5 = (Inr (), snd (ensure env0 fresh_store 1 ''COS'' 5))
   \<and> ensure env0 (snd (ensure env0 fresh_store 1 ''COS'' 5)) 1 ''COS'' 5
       = (Inr (), snd (ensure env0 fresh_store 1 ''COS'' 5))
   \<and> commands (mongoClient (snd (ensure env0 fresh_store 1 ''COS'' 5)))
       = [(''createIndexes'', ''sk_container'', indexDefs 1 ''COS'' 5)]"
proof -
  have first: "ensure env0 fresh_store 1 ''COS'' 5
                 = (Inr (), snd (ensure env0 fresh_store 1 ''COS'' 5))"
    by (simp add: ensure_fresh_store)
  have log: "commands (mongoClient (snd (ensure env0 fresh_store 1 ''COS'' 5)))
               = [(''createIndexes'', ''sk_container'', indexDefs 1 ''COS'' 5)]"
    by (simp add: ensure_fresh_store)
  from ensure_idempotent [OF first] first log show ?thesis
    by simp
qed

end
